theory Spec2Isabelle
  imports Main
begin

section \<open>The configuration root (openhands/core/config/openhands_config.py)\<close>

text \<open>
  The Python classes are pydantic models with many fields. The records below keep the
  fields that the wizard flows of \<^verbatim>\<open>openhands/cli/settings.py\<close> read or write;
  every other field is left untouched by the code under study.

  Python objects are references. The model is value based: a dictionary maps a profile
  name to the value of the configuration object stored there, and a mutation of an
  object obtained from the dictionary is written back under the key it was read from.
\<close>

datatype SecretStr = SecretStr string

record LLMConfig =
  model :: string
  api_key :: "SecretStr option"
  base_url :: "string option"

datatype CondenserConfig =
    ConversationWindowCondenserConfig
  | LLMSummarizingCondenserConfig LLMConfig "int option" "int option"
  | CondenserPipelineConfig "CondenserConfig list"

record AgentConfig =
  condenser :: CondenserConfig

record SecurityConfig =
  confirmation_mode :: bool

record Settings =
  llm_model :: "string option"
  llm_api_key :: "SecretStr option"
  llm_base_url :: "string option"
  agent :: "string option"
  confirmation_mode :: "bool option"
  enable_default_condenser :: bool
  search_api_key :: "SecretStr option"

record OpenHandsConfig =
  llms :: "string \<rightharpoonup> LLMConfig"
  agents :: "string \<rightharpoonup> AgentConfig"
  default_agent :: string
  security :: SecurityConfig
  enable_default_condenser :: bool
  search_api_key :: "SecretStr option"

text \<open>
  The classes \<^verbatim>\<open>LLMConfig\<close>, \<^verbatim>\<open>AgentConfig\<close> and \<^verbatim>\<open>Settings\<close>, the
  constants of \<^verbatim>\<open>openhands.cli.utils\<close> and the registries are imported by the two
  source files but defined elsewhere. They are parameters of the model, collected
  in one record:
  \<^item> \<open>new_LLMConfig\<close>, \<open>new_AgentConfig\<close>, \<open>new_Settings\<close>: the objects built by
    \<^verbatim>\<open>LLMConfig()\<close>, \<^verbatim>\<open>AgentConfig()\<close>, \<^verbatim>\<open>Settings()\<close>;
  \<^item> \<open>organized_models\<close>: the dictionary returned by
    \<^verbatim>\<open>organize_models_and_providers(get_supported_llm_models(config))\<close>, in insertion
    order, each provider with its separator and its models;
  \<^item> \<open>agent_list\<close>: the result of \<^verbatim>\<open>Agent.list_agents()\<close>.

  The two registries are collaborators that return a sequence of names; they read the
  configuration root and do not write it.
\<close>

record ProviderInfo =
  separator :: string
  models :: "string list"

record env =
  new_LLMConfig :: LLMConfig
  new_AgentConfig :: AgentConfig
  new_Settings :: Settings
  OH_DEFAULT_AGENT :: string
  VERIFIED_PROVIDERS :: "string list"
  VERIFIED_OPENAI_MODELS :: "string list"
  VERIFIED_ANTHROPIC_MODELS :: "string list"
  VERIFIED_MISTRAL_MODELS :: "string list"
  VERIFIED_OPENHANDS_MODELS :: "string list"
  organized_models :: "(string \<times> ProviderInfo) list"
  agent_list :: "string list"

text \<open>
  \<^verbatim>\<open>get_llm_config\<close> may insert the default profile, so it returns the configuration
  root next to the value found. The warning it logs for an unknown name is not modelled.
\<close>

definition get_llm_config :: "env \<Rightarrow> OpenHandsConfig \<Rightarrow> string \<Rightarrow> LLMConfig \<times> OpenHandsConfig" where
  "get_llm_config E self name =
     (case llms self name of
        Some found \<Rightarrow> (found, self)
      | None \<Rightarrow>
          (case llms self ''llm'' of
             Some dflt \<Rightarrow> (dflt, self)
           | None \<Rightarrow> (new_LLMConfig E, self\<lparr>llms := (llms self)(''llm'' \<mapsto> new_LLMConfig E)\<rparr>)))"

definition set_llm_config :: "OpenHandsConfig \<Rightarrow> LLMConfig \<Rightarrow> string \<Rightarrow> OpenHandsConfig" where
  "set_llm_config self v name = self\<lparr>llms := (llms self)(name \<mapsto> v)\<rparr>"

definition get_agent_config :: "env \<Rightarrow> OpenHandsConfig \<Rightarrow> string \<Rightarrow> AgentConfig \<times> OpenHandsConfig" where
  "get_agent_config E self name =
     (case agents self name of
        Some found \<Rightarrow> (found, self)
      | None \<Rightarrow>
          (case agents self ''agent'' of
             Some dflt \<Rightarrow> (dflt, self)
           | None \<Rightarrow> (new_AgentConfig E, self\<lparr>agents := (agents self)(''agent'' \<mapsto> new_AgentConfig E)\<rparr>)))"

definition set_agent_config :: "OpenHandsConfig \<Rightarrow> AgentConfig \<Rightarrow> string \<Rightarrow> OpenHandsConfig" where
  "set_agent_config self v name = self\<lparr>agents := (agents self)(name \<mapsto> v)\<rparr>"

text \<open>
  The key under which the object returned by \<^verbatim>\<open>get_agent_config(name)\<close> is stored:
  an assignment to a field of that object is seen through this key.
\<close>

definition agent_config_key :: "OpenHandsConfig \<Rightarrow> string \<Rightarrow> string" where
  "agent_config_key self name = (if agents self name \<noteq> None then name else ''agent'')"

section \<open>The terminal and the settings store\<close>

text \<open>
  The wizard talks to the user through two calls: \<^verbatim>\<open>session.prompt_async\<close>, which
  returns a line of text, and \<^verbatim>\<open>cli_confirm\<close>, which returns the index of the
  chosen entry. Either may raise instead. A run is driven by two scripts, one per call,
  consumed in order, as a test drives the code with mocked side effects. What the
  terminal offers is recorded: the choices of every confirmation and the completion
  words of every prompt. Plain messages printed to the terminal are not modelled.

  A script that is used up leaves the coroutine suspended at that call: the
  outcome \<open>Awaiting\<close>.
\<close>

datatype exn = UserCancelledError | KeyboardInterrupt | EOFError | IndexError | KeyError | StopIteration

datatype 'a event = Answer 'a | Raises exn

datatype ui_call = Confirm "string list" | Prompt "string list option"

record io =
  prompts :: "string event list"
  confirms :: "int event list"
  shown :: "ui_call list"

datatype 'a outcome = Returned 'a | Raised exn | Awaiting

type_synonym 'a ui = "io \<Rightarrow> 'a outcome \<times> io"

definition ret :: "'a \<Rightarrow> 'a ui" where
  "ret x = (\<lambda>s. (Returned x, s))"

definition raise :: "exn \<Rightarrow> 'a ui" where
  "raise e = (\<lambda>s. (Raised e, s))"

definition bnd :: "'a ui \<Rightarrow> ('a \<Rightarrow> 'b ui) \<Rightarrow> 'b ui" where
  "bnd m f = (\<lambda>s. case m s of
                     (Returned x, s') \<Rightarrow> f x s'
                   | (Raised e, s') \<Rightarrow> (Raised e, s')
                   | (Awaiting, s') \<Rightarrow> (Awaiting, s'))"

text \<open>
  Modelled from the spec: \<^verbatim>\<open>cli_confirm\<close> of \<^verbatim>\<open>openhands.cli.tui\<close>, a confirmation
  dialog returning the selected index. It shows the choices, then returns the next
  scripted index or raises the next scripted exception; it does not write the
  configuration root it is given.
\<close>

definition cli_confirm :: "string list \<Rightarrow> int ui" where
  "cli_confirm choices = (\<lambda>s.
     let s' = s\<lparr>shown := shown s @ [Confirm choices]\<rparr> in
     case confirms s of
       [] \<Rightarrow> (Awaiting, s')
     | Answer i # rest \<Rightarrow> (Returned i, s'\<lparr>confirms := rest\<rparr>)
     | Raises e # rest \<Rightarrow> (Raised e, s'\<lparr>confirms := rest\<rparr>))"

text \<open>
  Subscripting a Python list: \<^verbatim>\<open>xs[i]\<close> reads from the front for \<open>0 \<le> i\<close>, from the
  back for \<open>i < 0\<close>, and raises \<^verbatim>\<open>IndexError\<close> outside the list.
\<close>

definition py_index :: "'a list \<Rightarrow> int \<Rightarrow> 'a ui" where
  "py_index xs i =
     (if 0 \<le> i \<and> i < int (length xs) then ret (xs ! nat i)
      else if i < 0 \<and> - int (length xs) \<le> i then ret (xs ! nat (int (length xs) + i))
      else raise IndexError)"

text \<open>Python's \<^verbatim>\<open>d[k]\<close> on a dictionary kept as an association list.\<close>

definition py_getitem :: "('k \<times> 'v) list \<Rightarrow> 'k \<Rightarrow> 'v ui" where
  "py_getitem d k = (case map_of d k of None \<Rightarrow> raise KeyError | Some v \<Rightarrow> ret v)"

text \<open>
  The whitespace that \<^verbatim>\<open>str.strip()\<close> removes, within ASCII, and
  \<^verbatim>\<open>str.startswith\<close>.
\<close>

definition py_isspace :: "char \<Rightarrow> bool" where
  "py_isspace c = (c \<in> set [CHR 0x09, CHR 0x0A, CHR 0x0B, CHR 0x0C, CHR 0x0D,
                              CHR 0x1C, CHR 0x1D, CHR 0x1E, CHR 0x1F, CHR 0x20])"

definition strip :: "string \<Rightarrow> string" where
  "strip x = rev (dropWhile py_isspace (rev (dropWhile py_isspace x)))"

definition startswith :: "string \<Rightarrow> string \<Rightarrow> bool" where
  "startswith x p = (take (length p) x = p)"

section \<open>Validated input (openhands/cli/settings.py)\<close>

text \<open>
  The loop of \<^verbatim>\<open>get_validated_input\<close> over the script of prompt responses. The
  third component counts the prompts issued, the one the coroutine is suspended at
  included.
\<close>

fun prompt_loop :: "(string \<Rightarrow> bool) option \<Rightarrow> string event list
    \<Rightarrow> string outcome \<times> string event list \<times> nat" where
  "prompt_loop validator [] = (Awaiting, [], 1)"
| "prompt_loop validator (Raises e # rest) = (Raised e, rest, 1)"
| "prompt_loop validator (Answer v # rest) =
     (case validator of
        Some is_valid \<Rightarrow>
          if \<not> is_valid v
          then (case prompt_loop validator rest of (r, rest', n) \<Rightarrow> (r, rest', Suc n))
          else (Returned v, rest, 1)
      | None \<Rightarrow>
          if v = []
          then (case prompt_loop validator rest of (r, rest', n) \<Rightarrow> (r, rest', Suc n))
          else (Returned v, rest, 1))"

definition get_validated_input :: "string list option \<Rightarrow> (string \<Rightarrow> bool) option \<Rightarrow> string ui" where
  "get_validated_input completer validator = (\<lambda>s.
     case prompt_loop validator (prompts s) of
       (r, rest, n) \<Rightarrow> (r, s\<lparr>prompts := rest, shown := shown s @ replicate n (Prompt completer)\<rparr>))"

definition save_settings_confirmation :: "bool ui" where
  "save_settings_confirmation =
     bnd (cli_confirm [''Yes, save'', ''No, discard'']) (\<lambda>i. ret (i = 0))"

text \<open>
  Modelled from the spec: the settings store \<^verbatim>\<open>FileSettingsStore\<close>, with
  \<^verbatim>\<open>load() -> Settings|None\<close> and \<^verbatim>\<open>store(Settings) -> None\<close>. It keeps one settings
  record, absent before the first save; each call of \<^verbatim>\<open>store\<close> is logged. \<open>load\<close>
  below includes the replacement of an absent record by \<^verbatim>\<open>Settings()\<close> that each
  wizard does after loading.
\<close>

record world =
  config :: OpenHandsConfig
  settings_file :: "Settings option"
  store_calls :: "Settings list"

definition load :: "env \<Rightarrow> world \<Rightarrow> Settings" where
  "load E w = (case settings_file w of None \<Rightarrow> new_Settings E | Some settings \<Rightarrow> settings)"

definition store :: "Settings \<Rightarrow> world \<Rightarrow> world" where
  "store settings w = w\<lparr>settings_file := Some settings, store_calls := store_calls w @ [settings]\<rparr>"

definition cancelled :: "exn \<Rightarrow> bool" where
  "cancelled e = (e = UserCancelledError \<or> e = KeyboardInterrupt \<or> e = EOFError)"

section \<open>The basic LLM wizard\<close>

text \<open>Lines 169 to 172: the verified providers first, then the others, in registry order.\<close>

definition verified_providers :: "env \<Rightarrow> string list" where
  "verified_providers E =
     filter (\<lambda>p. p \<in> set (map fst (organized_models E))) (VERIFIED_PROVIDERS E)"

definition provider_list :: "env \<Rightarrow> string list" where
  "provider_list E =
     verified_providers E @
     filter (\<lambda>p. p \<notin> set (verified_providers E)) (map fst (organized_models E))"

text \<open>
  Step 1 (lines 189 to 233). The answer of \<^verbatim>\<open>cli_confirm\<close> is an integer already, so
  \<^verbatim>\<open>int(provider_choice)\<close> is the identity.
\<close>

definition select_provider :: "env \<Rightarrow> string ui" where
  "select_provider E =
     bnd (cli_confirm (verified_providers E @ [''Select another provider'']))
       (\<lambda>choice_index.
          if choice_index < int (length (verified_providers E))
          then py_index (verified_providers E) choice_index
          else get_validated_input (Some (provider_list E))
                 (Some (\<lambda>x. x \<in> set (map fst (organized_models E)))))"

definition existing_provider :: "env \<Rightarrow> string \<Rightarrow> string ui" where
  "existing_provider E provider =
     (if provider \<notin> set (map fst (organized_models E))
      then (if ''anthropic'' \<in> set (map fst (organized_models E)) then ret ''anthropic''
            else (case organized_models E of
                    [] \<Rightarrow> raise StopIteration
                  | first # _ \<Rightarrow> ret (fst first)))
      else ret provider)"

text \<open>Lines 235 to 255: four tests in sequence, each rebinding \<^verbatim>\<open>provider_models\<close>.\<close>

definition provider_models :: "env \<Rightarrow> string \<Rightarrow> ProviderInfo \<Rightarrow> string list" where
  "provider_models E provider info =
     (let pm = models info;
          pm = (if provider = ''openai''
                then VERIFIED_OPENAI_MODELS E @
                       filter (\<lambda>m. m \<notin> set (VERIFIED_OPENAI_MODELS E)) pm
                else pm);
          pm = (if provider = ''anthropic''
                then VERIFIED_ANTHROPIC_MODELS E @
                       filter (\<lambda>m. m \<notin> set (VERIFIED_ANTHROPIC_MODELS E)) pm
                else pm);
          pm = (if provider = ''mistral''
                then VERIFIED_MISTRAL_MODELS E @
                       filter (\<lambda>m. m \<notin> set (VERIFIED_MISTRAL_MODELS E)) pm
                else pm);
          pm = (if provider = ''openhands''
                then VERIFIED_OPENHANDS_MODELS E @
                       filter (\<lambda>m. m \<notin> set (VERIFIED_OPENHANDS_MODELS E)) pm
                else pm)
      in pm)"

text \<open>Lines 257 to 274.\<close>

definition default_model :: "env \<Rightarrow> string \<Rightarrow> string list \<Rightarrow> string" where
  "default_model E provider pm =
     (if provider = ''anthropic'' \<and> VERIFIED_ANTHROPIC_MODELS E \<noteq> []
      then hd (VERIFIED_ANTHROPIC_MODELS E)
      else if provider = ''openai'' \<and> VERIFIED_OPENAI_MODELS E \<noteq> []
      then hd (VERIFIED_OPENAI_MODELS E)
      else if provider = ''mistral'' \<and> VERIFIED_MISTRAL_MODELS E \<noteq> []
      then hd (VERIFIED_MISTRAL_MODELS E)
      else if provider = ''openhands'' \<and> VERIFIED_OPENHANDS_MODELS E \<noteq> []
      then hd (VERIFIED_OPENHANDS_MODELS E)
      else if pm \<noteq> [] then hd pm else ''claude-sonnet-4-20250514'')"

definition model_validator :: "string \<Rightarrow> bool" where
  "model_validator x = (if strip x = [] then False else True)"

text \<open>Step 2 (lines 276 to 335).\<close>

definition select_model :: "env \<Rightarrow> string \<Rightarrow> string list \<Rightarrow> string ui" where
  "select_model E provider pm =
     (if provider = ''openhands''
      then (let model_choices = VERIFIED_OPENHANDS_MODELS E
            in bnd (cli_confirm model_choices) (\<lambda>model_choice. py_index model_choices model_choice))
      else bnd (cli_confirm [''Use '' @ default_model E provider pm, ''Select another model''])
             (\<lambda>choice.
                if choice = 1
                then get_validated_input (Some pm) (Some model_validator)
                else ret (default_model E provider pm)))"

text \<open>The body of the \<^verbatim>\<open>try\<close> block (lines 182 to 348).\<close>

definition modify_llm_settings_basic_inputs :: "env \<Rightarrow> (string \<times> string \<times> string) ui" where
  "modify_llm_settings_basic_inputs E =
     bnd (select_provider E) (\<lambda>provider.
     bnd (existing_provider E provider) (\<lambda>provider.
     bnd (py_getitem (organized_models E) provider) (\<lambda>info.
     bnd (select_model E provider (provider_models E provider info)) (\<lambda>chosen.
     bnd (get_validated_input None None) (\<lambda>key.
     ret (provider, chosen, key))))))"

text \<open>
  Lines 365 to 391. The object returned by \<^verbatim>\<open>get_llm_config()\<close> is the one stored
  under \<^verbatim>\<open>'llm'\<close>, so the assignments to its fields and \<^verbatim>\<open>set_llm_config\<close> write
  the same entry. The agent configuration is changed where it was found and then stored
  under the default agent's name.
\<close>

definition modify_llm_settings_basic_save ::
    "env \<Rightarrow> string \<Rightarrow> string \<Rightarrow> string \<Rightarrow> world \<Rightarrow> unit outcome \<times> world" where
  "modify_llm_settings_basic_save E provider chosen key w =
     (case get_llm_config E (config w) ''llm'' of (llm_config, c1) \<Rightarrow>
      (case map_of (organized_models E) provider of
         None \<Rightarrow> (Raised KeyError, w\<lparr>config := c1\<rparr>)
       | Some info \<Rightarrow>
          (let llm_config = llm_config\<lparr>model := provider @ separator info @ chosen,
                                        api_key := Some (SecretStr key),
                                        base_url := None\<rparr>;
               c2 = set_llm_config c1 llm_config ''llm'';
               c3 = c2\<lparr>default_agent := OH_DEFAULT_AGENT E,
                       OpenHandsConfig.enable_default_condenser := True\<rparr>
           in case get_agent_config E c3 (default_agent c3) of (agent_config, c4) \<Rightarrow>
             (let agent_config = agent_config\<lparr>condenser :=
                                   LLMSummarizingCondenserConfig llm_config None None\<rparr>;
                  c5 = set_agent_config c4 agent_config (agent_config_key c3 (default_agent c3));
                  c6 = set_agent_config c5 agent_config (default_agent c5);
                  settings = (load E w)\<lparr>llm_model := Some (provider @ separator info @ chosen),
                                         llm_api_key := Some (SecretStr key),
                                         llm_base_url := None,
                                         agent := Some (OH_DEFAULT_AGENT E),
                                         Settings.enable_default_condenser := True\<rparr>
              in (Returned (), store settings (w\<lparr>config := c6\<rparr>))))))"

definition modify_llm_settings_basic :: "env \<Rightarrow> world \<Rightarrow> io \<Rightarrow> unit outcome \<times> world \<times> io" where
  "modify_llm_settings_basic E w s =
     (if ''anthropic'' \<notin> set (provider_list E) \<and> provider_list E = []
      then (Raised IndexError, w, s)
      else
        (case modify_llm_settings_basic_inputs E s of
           (Raised e, s1) \<Rightarrow> if cancelled e then (Returned (), w, s1) else (Raised e, w, s1)
         | (Awaiting, s1) \<Rightarrow> (Awaiting, w, s1)
         | (Returned (provider, chosen, key), s1) \<Rightarrow>
             (case save_settings_confirmation s1 of
                (Raised e, s2) \<Rightarrow> (Raised e, w, s2)
              | (Awaiting, s2) \<Rightarrow> (Awaiting, w, s2)
              | (Returned save_settings, s2) \<Rightarrow>
                  if \<not> save_settings then (Returned (), w, s2)
                  else (case modify_llm_settings_basic_save E provider chosen key w of
                          (r, w') \<Rightarrow> (r, w', s2)))))"

section \<open>The advanced LLM wizard\<close>

text \<open>The body of the \<^verbatim>\<open>try\<close> block (lines 404 to 449).\<close>

definition modify_llm_settings_advanced_inputs ::
    "env \<Rightarrow> (string \<times> string \<times> string \<times> string \<times> bool \<times> bool) ui" where
  "modify_llm_settings_advanced_inputs E =
     bnd (get_validated_input None None) (\<lambda>custom_model.
     bnd (get_validated_input None None) (\<lambda>url.
     bnd (get_validated_input None None) (\<lambda>key.
     bnd (get_validated_input (Some (agent_list E)) (Some (\<lambda>x. x \<in> set (agent_list E)))) (\<lambda>chosen_agent.
     bnd (cli_confirm [''Enable'', ''Disable'']) (\<lambda>c5.
     bnd (cli_confirm [''Enable'', ''Disable'']) (\<lambda>c6.
     ret (custom_model, url, key, chosen_agent, c5 = 0, c6 = 0)))))))"

text \<open>Lines 466 to 506.\<close>

definition modify_llm_settings_advanced_save ::
    "env \<Rightarrow> string \<Rightarrow> string \<Rightarrow> string \<Rightarrow> string \<Rightarrow> bool \<Rightarrow> bool \<Rightarrow> world \<Rightarrow> world" where
  "modify_llm_settings_advanced_save E custom_model url key chosen_agent
       enable_confirmation_mode enable_memory_condensation w =
     (case get_llm_config E (config w) ''llm'' of (llm_config, c1) \<Rightarrow>
        (let llm_config = llm_config\<lparr>model := custom_model,
                                      base_url := Some url,
                                      api_key := Some (SecretStr key)\<rparr>;
             c2 = set_llm_config c1 llm_config ''llm'';
             c3 = c2\<lparr>default_agent := chosen_agent\<rparr>;
             c3 = c3\<lparr>security := (security c3)\<lparr>SecurityConfig.confirmation_mode :=
                                                  enable_confirmation_mode\<rparr>\<rparr>
         in case get_agent_config E c3 (default_agent c3) of (agent_config, c4) \<Rightarrow>
           (let agent_config = agent_config\<lparr>condenser :=
                  (if enable_memory_condensation
                   then CondenserPipelineConfig
                          [ConversationWindowCondenserConfig,
                           LLMSummarizingCondenserConfig llm_config (Some 4) (Some 120)]
                   else ConversationWindowCondenserConfig)\<rparr>;
                c5 = set_agent_config c4 agent_config (agent_config_key c3 (default_agent c3));
                c6 = set_agent_config c5 agent_config ''agent'';
                settings = (load E w)\<lparr>llm_model := Some custom_model,
                                       llm_api_key := Some (SecretStr key),
                                       llm_base_url := Some url,
                                       agent := Some chosen_agent,
                                       Settings.confirmation_mode := Some enable_confirmation_mode,
                                       Settings.enable_default_condenser := enable_memory_condensation\<rparr>
            in store settings (w\<lparr>config := c6\<rparr>))))"

definition modify_llm_settings_advanced :: "env \<Rightarrow> world \<Rightarrow> io \<Rightarrow> unit outcome \<times> world \<times> io" where
  "modify_llm_settings_advanced E w s =
     (case modify_llm_settings_advanced_inputs E s of
        (Raised e, s1) \<Rightarrow> if cancelled e then (Returned (), w, s1) else (Raised e, w, s1)
      | (Awaiting, s1) \<Rightarrow> (Awaiting, w, s1)
      | (Returned (custom_model, url, key, chosen_agent, conf, cond), s1) \<Rightarrow>
          (case save_settings_confirmation s1 of
             (Raised e, s2) \<Rightarrow> (Raised e, w, s2)
           | (Awaiting, s2) \<Rightarrow> (Awaiting, w, s2)
           | (Returned save_settings, s2) \<Rightarrow>
               if \<not> save_settings then (Returned (), w, s2)
               else (Returned (),
                     modify_llm_settings_advanced_save E custom_model url key chosen_agent conf cond w,
                     s2)))"

section \<open>The search API key wizard\<close>

definition search_key_validator :: "string \<Rightarrow> bool" where
  "search_key_validator x = (if strip x \<noteq> [] then startswith x ''tvly-'' else False)"

text \<open>
  The body of the \<^verbatim>\<open>try\<close> block (lines 517 to 554); \<open>None\<close> is the
  \<^verbatim>\<open>return\<close> of the branch that keeps the current setting.
\<close>

definition modify_search_api_settings_inputs :: "string option ui" where
  "modify_search_api_settings_inputs =
     bnd (cli_confirm [''Set/Update API Key'', ''Remove API Key'', ''Keep current setting''])
       (\<lambda>modify_key.
          if modify_key = 0
          then bnd (get_validated_input None (Some search_key_validator)) (\<lambda>k. ret (Some k))
          else if modify_key = 1 then ret (Some [])
          else ret None)"

text \<open>Lines 568 to 578.\<close>

definition modify_search_api_settings_save :: "env \<Rightarrow> string \<Rightarrow> world \<Rightarrow> world" where
  "modify_search_api_settings_save E key w =
     (let c1 = (config w)\<lparr>OpenHandsConfig.search_api_key :=
                            (if key \<noteq> [] then Some (SecretStr key) else None)\<rparr>;
          settings = (load E w)\<lparr>Settings.search_api_key :=
                                 (if key \<noteq> [] then Some (SecretStr key) else None)\<rparr>
      in store settings (w\<lparr>config := c1\<rparr>))"

definition modify_search_api_settings :: "env \<Rightarrow> world \<Rightarrow> io \<Rightarrow> unit outcome \<times> world \<times> io" where
  "modify_search_api_settings E w s =
     (case modify_search_api_settings_inputs s of
        (Raised e, s1) \<Rightarrow> if cancelled e then (Returned (), w, s1) else (Raised e, w, s1)
      | (Awaiting, s1) \<Rightarrow> (Awaiting, w, s1)
      | (Returned None, s1) \<Rightarrow> (Returned (), w, s1)
      | (Returned (Some key), s1) \<Rightarrow>
          (case save_settings_confirmation s1 of
             (Raised e, s2) \<Rightarrow> (Raised e, w, s2)
           | (Awaiting, s2) \<Rightarrow> (Awaiting, w, s2)
           | (Returned save_settings, s2) \<Rightarrow>
               if \<not> save_settings then (Returned (), w, s2)
               else (Returned (), modify_search_api_settings_save E key w, s2)))"

section \<open>Acceptance of a response, and example data\<close>

text \<open>
  A response is accepted by the validator supplied, or, when none is supplied, when it
  is not empty. This is the reading of the specification; the loop above has its own
  tests, taken from the source.
\<close>

definition accepts :: "(string \<Rightarrow> bool) option \<Rightarrow> string \<Rightarrow> bool" where
  "accepts validator v = (case validator of Some is_valid \<Rightarrow> is_valid v | None \<Rightarrow> v \<noteq> [])"

definition example_llm :: LLMConfig where
  "example_llm = \<lparr>model = ''gpt-4o'', api_key = None, base_url = None\<rparr>"

definition example_agent :: AgentConfig where
  "example_agent = \<lparr>condenser = ConversationWindowCondenserConfig\<rparr>"

definition example_settings :: Settings where
  "example_settings = \<lparr>llm_model = None, llm_api_key = None, llm_base_url = None, agent = None,
     confirmation_mode = None, Settings.enable_default_condenser = True,
     Settings.search_api_key = None\<rparr>"

definition example_env :: env where
  "example_env = \<lparr>new_LLMConfig = \<lparr>model = ''claude-sonnet-4-20250514'', api_key = None, base_url = None\<rparr>,
     new_AgentConfig = example_agent,
     new_Settings = example_settings,
     OH_DEFAULT_AGENT = ''CodeActAgent'',
     VERIFIED_PROVIDERS = [''openhands'', ''anthropic'', ''openai'', ''mistral''],
     VERIFIED_OPENAI_MODELS = [''gpt-4o'', ''o3''],
     VERIFIED_ANTHROPIC_MODELS = [''claude-sonnet-4-20250514''],
     VERIFIED_MISTRAL_MODELS = [''devstral-small-2505''],
     VERIFIED_OPENHANDS_MODELS = [''claude-sonnet-4-20250514'', ''o3''],
     organized_models =
       [(''openai'', \<lparr>separator = ''/'', models = [''gpt-3.5-turbo'', ''gpt-4o'']\<rparr>),
        (''openhands'', \<lparr>separator = ''/'', models = [''o3'', ''qwen3-coder-480b'']\<rparr>),
        (''cohere'', \<lparr>separator = ''.'', models = [''command-r'']\<rparr>)],
     agent_list = [''CodeActAgent'', ''BrowsingAgent'']\<rparr>"

definition example_config :: OpenHandsConfig where
  "example_config = \<lparr>llms = [''gpt'' \<mapsto> example_llm], agents = [''coder'' \<mapsto> example_agent],
     default_agent = ''CodeActAgent'', security = \<lparr>SecurityConfig.confirmation_mode = False\<rparr>,
     enable_default_condenser = True, search_api_key = Some (SecretStr ''tvly-old'')\<rparr>"

definition example_world :: world where
  "example_world = \<lparr>config = example_config,
       settings_file = Some (example_settings\<lparr>Settings.search_api_key := Some (SecretStr ''tvly-old'')\<rparr>),
       store_calls = []\<rparr>"





definition basic_io :: "int \<Rightarrow> io" where
  "basic_io save = \<lparr>prompts = [Answer [], Answer ''cohere'', Answer ''command-r-plus'', Answer ''sk-1''],
                     confirms = [Answer 2, Answer 1, Answer save], shown = []\<rparr>"

definition advanced_io :: "int \<Rightarrow> io" where
  "advanced_io save = \<lparr>prompts = [Answer ''my-model'', Answer ''http://localhost:4000'', Answer ''sk-2'',
                                   Answer ''NoSuchAgent'', Answer ''BrowsingAgent''],
                        confirms = [Answer 0, Answer 1, Answer save], shown = []\<rparr>"


definition basic_shown :: "ui_call list" where
  "basic_shown = [Confirm [''openhands'', ''openai'', ''Select another provider''],
                  Prompt (Some [''openhands'', ''openai'', ''cohere'']),
                  Prompt (Some [''openhands'', ''openai'', ''cohere'']),
                  Confirm [''Use command-r'', ''Select another model''],
                  Prompt (Some [''command-r'']),
                  Prompt None]"

definition advanced_shown :: "ui_call list" where
  "advanced_shown = [Prompt None, Prompt None, Prompt None,
                     Prompt (Some [''CodeActAgent'', ''BrowsingAgent'']),
                     Prompt (Some [''CodeActAgent'', ''BrowsingAgent'']),
                     Confirm [''Enable'', ''Disable''], Confirm [''Enable'', ''Disable'']]"


definition remove_io :: io where
  "remove_io = \<lparr>prompts = [], confirms = [Answer 1, Answer 0], shown = []\<rparr>"



section \<open>Profiles of the configuration root\<close>

text \<open>
  Claim C8. Reading a profile right after writing it gives the value written:
  \<^verbatim>\<open>get_llm_config(name)\<close> after \<^verbatim>\<open>set_llm_config(v, name)\<close> returns \<open>v\<close>, and
  \<^verbatim>\<open>get_agent_config(name)\<close> after \<^verbatim>\<open>set_agent_config(v, name)\<close> returns \<open>v\<close>, for
  every configuration root, name and value; the read leaves the root as the write made it.
\<close>

theorem set_then_get:
  "get_llm_config E (set_llm_config c v name) name = (v, set_llm_config c v name)
   \<and> get_agent_config E (set_agent_config c a name) name = (a, set_agent_config c a name)"
  by (simp add: get_llm_config_def set_llm_config_def get_agent_config_def set_agent_config_def)

text \<open>
  Claim C9. For a name that is neither a key of \<open>llms\<close> nor \<^verbatim>\<open>'llm'\<close>,
  \<^verbatim>\<open>get_llm_config(name)\<close> returns the default profile's configuration (the one
  present, or a new one when absent); afterwards \<^verbatim>\<open>'llm'\<close> is a key holding the value
  returned and the requested name is still not a key.
\<close>

theorem get_llm_config_unknown_name:
  assumes "llms c name = None" and "name \<noteq> ''llm''"
  shows "fst (get_llm_config E c name) = (case llms c ''llm'' of Some d \<Rightarrow> d | None \<Rightarrow> new_LLMConfig E)
     \<and> llms (snd (get_llm_config E c name)) ''llm'' = Some (fst (get_llm_config E c name))
     \<and> llms (snd (get_llm_config E c name)) name = None"
  using assms by (simp add: get_llm_config_def split: option.splits)

theorem get_llm_config_unknown_name_witness:
  "llms example_config ''claude'' = None \<and> ''claude'' \<noteq> ''llm''
   \<and> fst (get_llm_config example_env example_config ''claude'') = new_LLMConfig example_env
   \<and> llms (snd (get_llm_config example_env example_config ''claude'')) ''llm'' = Some (new_LLMConfig example_env)
   \<and> llms (snd (get_llm_config example_env example_config ''claude'')) ''claude'' = None"
  using get_llm_config_unknown_name [of example_config "''claude''" example_env]
  by (simp add: example_config_def)




section \<open>Validated input\<close>

lemma prompt_loop_sound:
  "prompt_loop validator script = (r, rest, n) \<Longrightarrow>
   \<exists>rejected. (\<forall>v \<in> set rejected. \<not> accepts validator v) \<and> n = Suc (length rejected) \<and>
     (case r of
        Returned v \<Rightarrow> accepts validator v \<and> script = map Answer rejected @ Answer v # rest
      | Raised e \<Rightarrow> script = map Answer rejected @ Raises e # rest
      | Awaiting \<Rightarrow> script = map Answer rejected \<and> rest = [])"
proof (induction validator script arbitrary: r rest n rule: prompt_loop.induct)
  case (1 validator)
  then show ?case by auto
next
  case (2 validator e rest0)
  then have "r = Raised e" "rest = rest0" "n = 1" by auto
  then show ?case by (intro exI [of _ "[]"]) simp
next
  case (3 validator v rest0)
  show ?case
  proof (cases "accepts validator v")
    case True
    with 3(3) have "r = Returned v" "rest = rest0" "n = 1"
      by (auto simp: accepts_def split: option.splits)
    with True show ?thesis by (intro exI [of _ "[]"]) simp
  next
    case False
    obtain r1 rest1 n1 where rec: "prompt_loop validator rest0 = (r1, rest1, n1)"
      by (cases "prompt_loop validator rest0") auto
    with False 3(3) have eq: "r = r1" "rest = rest1" "n = Suc n1"
      by (auto simp: accepts_def split: option.splits)
    have "\<exists>rejected. (\<forall>v \<in> set rejected. \<not> accepts validator v) \<and> n1 = Suc (length rejected) \<and>
     (case r1 of
        Returned v \<Rightarrow> accepts validator v \<and> rest0 = map Answer rejected @ Answer v # rest1
      | Raised e \<Rightarrow> rest0 = map Answer rejected @ Raises e # rest1
      | Awaiting \<Rightarrow> rest0 = map Answer rejected \<and> rest1 = [])"
    proof (cases validator)
      case None
      with False have "v = []" by (simp add: accepts_def)
      from 3(1) [OF None this rec] show ?thesis .
    next
      case (Some is_valid)
      with False have "\<not> is_valid v" by (simp add: accepts_def)
      from 3(2) [OF Some this rec] show ?thesis .
    qed
    then obtain rejected where rj: "\<forall>v \<in> set rejected. \<not> accepts validator v" "n1 = Suc (length rejected)"
      "(case r1 of
        Returned v \<Rightarrow> accepts validator v \<and> rest0 = map Answer rejected @ Answer v # rest1
      | Raised e \<Rightarrow> rest0 = map Answer rejected @ Raises e # rest1
      | Awaiting \<Rightarrow> rest0 = map Answer rejected \<and> rest1 = [])" by blast
    show ?thesis
      using rj False eq by (intro exI [of _ "v # rejected"]) (auto split: outcome.splits)
  qed
qed


lemma get_validated_input_accepts:
  assumes "get_validated_input completer validator s = (Returned v, s')"
  shows "accepts validator v"
proof -
  obtain r rest n where loop: "prompt_loop validator (prompts s) = (r, rest, n)"
    by (cases "prompt_loop validator (prompts s)") auto
  with assms have "r = Returned v" by (simp add: get_validated_input_def)
  with prompt_loop_sound [OF loop] show ?thesis by auto
qed



section \<open>Example runs of the wizards\<close>

lemmas wizard_defs =
  modify_llm_settings_basic_inputs_def select_provider_def verified_providers_def
  provider_list_def existing_provider_def provider_models_def default_model_def
  select_model_def model_validator_def strip_def py_isspace_def get_validated_input_def
  modify_llm_settings_advanced_inputs_def modify_search_api_settings_inputs_def
  search_key_validator_def startswith_def save_settings_confirmation_def
  bnd_def ret_def raise_def cli_confirm_def py_index_def py_getitem_def Let_def

lemmas config_defs =
  get_llm_config_def set_llm_config_def get_agent_config_def set_agent_config_def
  agent_config_key_def load_def store_def Let_def




lemma basic_run:
  "modify_llm_settings_basic_inputs example_env (basic_io save) =
     (Returned (''cohere'', ''command-r-plus'', ''sk-1''),
      \<lparr>prompts = [], confirms = [Answer save], shown = basic_shown\<rparr>)"
  by (simp add: wizard_defs example_env_def basic_io_def basic_shown_def)

lemma advanced_run:
  "modify_llm_settings_advanced_inputs example_env (advanced_io save) =
     (Returned (''my-model'', ''http://localhost:4000'', ''sk-2'', ''BrowsingAgent'', True, False),
      \<lparr>prompts = [], confirms = [Answer save], shown = advanced_shown\<rparr>)"
  by (simp add: wizard_defs example_env_def advanced_io_def advanced_shown_def)


lemma save_run:
  "save_settings_confirmation \<lparr>prompts = [], confirms = [Answer save], shown = sh\<rparr> =
     (Returned (save = 0),
      \<lparr>prompts = [], confirms = [], shown = sh @ [Confirm [''Yes, save'', ''No, discard'']]\<rparr>)"
  by (simp add: wizard_defs)

section \<open>The wizards: cancelling and declining\<close>

lemma bnd_Returned:
  "bnd m f s = (Returned y, s') \<Longrightarrow> \<exists>x s1. m s = (Returned x, s1) \<and> f x s1 = (Returned y, s')"
  by (auto simp: bnd_def split: prod.splits outcome.splits)

lemma provider_list_empty: "provider_list E = [] \<longleftrightarrow> organized_models E = []"
proof
  assume "provider_list E = []"
  then have v: "verified_providers E = []"
    and f: "filter (\<lambda>p. p \<notin> set (verified_providers E)) (map fst (organized_models E)) = []"
    unfolding provider_list_def by blast+
  from f have "map fst (organized_models E) = []" unfolding v by simp
  then show "organized_models E = []" by simp
next
  assume "organized_models E = []"
  then show "provider_list E = []" by (simp add: provider_list_def verified_providers_def)
qed

lemma basic_inputs_provider_known:
  assumes "modify_llm_settings_basic_inputs E s = (Returned (provider, chosen, key), s1)"
  shows "\<exists>info. map_of (organized_models E) provider = Some info"
proof -
  from bnd_Returned [OF assms [unfolded modify_llm_settings_basic_inputs_def]]
  obtain p0 sa where
    a: "bnd (existing_provider E p0) (\<lambda>provider.
     bnd (py_getitem (organized_models E) provider) (\<lambda>info.
     bnd (select_model E provider (provider_models E provider info)) (\<lambda>chosen.
     bnd (get_validated_input None None) (\<lambda>key.
     ret (provider, chosen, key))))) sa = (Returned (provider, chosen, key), s1)"
    by blast
  from bnd_Returned [OF a] obtain p sb where
    b: "bnd (py_getitem (organized_models E) p) (\<lambda>info.
     bnd (select_model E p (provider_models E p info)) (\<lambda>chosen.
     bnd (get_validated_input None None) (\<lambda>key.
     ret (p, chosen, key)))) sb = (Returned (provider, chosen, key), s1)"
    by blast
  from bnd_Returned [OF b] obtain info sc where
    c: "py_getitem (organized_models E) p sb = (Returned info, sc)"
    and d: "bnd (select_model E p (provider_models E p info)) (\<lambda>chosen.
     bnd (get_validated_input None None) (\<lambda>key.
     ret (p, chosen, key))) sc = (Returned (provider, chosen, key), s1)"
    by blast
  from bnd_Returned [OF d] obtain m sd where
    e: "bnd (get_validated_input None None) (\<lambda>key. ret (p, m, key)) sd = (Returned (provider, chosen, key), s1)"
    by blast
  from bnd_Returned [OF e] obtain k se where "ret (p, m, k) se = (Returned (provider, chosen, key), s1)"
    by blast
  then have "p = provider" by (simp add: ret_def)
  with c show ?thesis
    by (auto simp: py_getitem_def ret_def raise_def split: option.splits)
qed

lemma basic_inputs_reached:
  assumes "modify_llm_settings_basic_inputs E s = (Returned x, s1)"
  shows "provider_list E \<noteq> []"
proof -
  obtain provider chosen key where "x = (provider, chosen, key)" by (cases x) auto
  with assms basic_inputs_provider_known obtain info where
    "map_of (organized_models E) provider = Some info" by blast
  then have "organized_models E \<noteq> []" by auto
  then show ?thesis by (simp add: provider_list_empty)
qed

text \<open>
  The provider chosen in step 1 is always a key of \<^verbatim>\<open>organized_models\<close>, so the
  replacement at lines 226 to 233 never changes it.
\<close>

lemma verified_providers_known:
  "set (verified_providers E) \<subseteq> set (map fst (organized_models E))"
  by (auto simp: verified_providers_def)

lemma py_index_member:
  assumes "py_index xs i s = (Returned x, s')"
  shows "x \<in> set xs"
proof -
  have "nat i < length xs" if "0 \<le> i" "i < int (length xs)" using that by linarith
  moreover have "nat (int (length xs) + i) < length xs" if "i < 0" "- int (length xs) \<le> i"
    using that by linarith
  ultimately show ?thesis
    using assms by (auto simp: py_index_def ret_def raise_def split: if_splits)
qed

lemma select_provider_known:
  assumes "select_provider E s = (Returned provider, s')"
  shows "provider \<in> set (map fst (organized_models E))"
    and "existing_provider E provider = ret provider"
proof -
  from bnd_Returned [OF assms [unfolded select_provider_def]] obtain i s1 where
    step: "(if i < int (length (verified_providers E))
            then py_index (verified_providers E) i
            else get_validated_input (Some (provider_list E))
                   (Some (\<lambda>x. x \<in> set (map fst (organized_models E))))) s1
           = (Returned provider, s')"
    by blast
  show known: "provider \<in> set (map fst (organized_models E))"
  proof (cases "i < int (length (verified_providers E))")
    case True
    with step have "py_index (verified_providers E) i s1 = (Returned provider, s')" by simp
    from py_index_member [OF this] verified_providers_known show ?thesis by blast
  next
    case False
    with step have "get_validated_input (Some (provider_list E))
                   (Some (\<lambda>x. x \<in> set (map fst (organized_models E)))) s1 = (Returned provider, s')"
      by simp
    from get_validated_input_accepts [OF this] show ?thesis by (simp add: accepts_def)
  qed
  then show "existing_provider E provider = ret provider"
    by (simp add: existing_provider_def)
qed

text \<open>
  Whatever the scripts, a wizard that ends with a world other than the one it started
  with has collected its inputs and has been told to save.
\<close>

lemma basic_writes_need_confirmation:
  assumes "modify_llm_settings_basic E w s = (r, w', s')" and "w' \<noteq> w"
  shows "\<exists>x s1. modify_llm_settings_basic_inputs E s = (Returned x, s1)
             \<and> save_settings_confirmation s1 = (Returned True, s')"
proof -
  obtain r1 s1 where i: "modify_llm_settings_basic_inputs E s = (r1, s1)"
    by (cases "modify_llm_settings_basic_inputs E s") auto
  obtain r2 s2 where c: "save_settings_confirmation s1 = (r2, s2)"
    by (cases "save_settings_confirmation s1") auto
  show ?thesis
  proof (cases r1)
    case (Returned x)
    show ?thesis
    proof (cases r2)
      case (Returned yes)
      with assms i c \<open>r1 = Returned x\<close> show ?thesis
        by (cases yes; cases x) (auto simp: modify_llm_settings_basic_def split: if_splits prod.splits)
    qed (use assms i c Returned in \<open>auto simp: modify_llm_settings_basic_def split: if_splits prod.splits\<close>)
  qed (use assms i in \<open>auto simp: modify_llm_settings_basic_def split: if_splits\<close>)
qed

lemma advanced_writes_need_confirmation:
  assumes "modify_llm_settings_advanced E w s = (r, w', s')" and "w' \<noteq> w"
  shows "\<exists>x s1. modify_llm_settings_advanced_inputs E s = (Returned x, s1)
             \<and> save_settings_confirmation s1 = (Returned True, s')"
proof -
  obtain r1 s1 where i: "modify_llm_settings_advanced_inputs E s = (r1, s1)"
    by (cases "modify_llm_settings_advanced_inputs E s") auto
  obtain r2 s2 where c: "save_settings_confirmation s1 = (r2, s2)"
    by (cases "save_settings_confirmation s1") auto
  show ?thesis
  proof (cases r1)
    case (Returned x)
    show ?thesis
    proof (cases r2)
      case (Returned yes)
      with assms i c \<open>r1 = Returned x\<close> show ?thesis
        by (cases yes) (auto simp: modify_llm_settings_advanced_def split: if_splits prod.splits)
    qed (use assms i c Returned in \<open>auto simp: modify_llm_settings_advanced_def split: if_splits prod.splits\<close>)
  qed (use assms i in \<open>auto simp: modify_llm_settings_advanced_def split: if_splits\<close>)
qed

lemma search_writes_need_confirmation:
  assumes "modify_search_api_settings E w s = (r, w', s')" and "w' \<noteq> w"
  shows "\<exists>x s1. modify_search_api_settings_inputs s = (Returned x, s1)
             \<and> save_settings_confirmation s1 = (Returned True, s')"
proof -
  obtain r1 s1 where i: "modify_search_api_settings_inputs s = (r1, s1)"
    by (cases "modify_search_api_settings_inputs s") auto
  obtain r2 s2 where c: "save_settings_confirmation s1 = (r2, s2)"
    by (cases "save_settings_confirmation s1") auto
  show ?thesis
  proof (cases r1)
    case (Returned x)
    show ?thesis
    proof (cases r2)
      case (Returned yes)
      with assms i c \<open>r1 = Returned x\<close> show ?thesis
        by (cases yes; cases x) (auto simp: modify_search_api_settings_def split: if_splits)
    qed (use assms i c Returned in \<open>(cases x; auto simp: modify_search_api_settings_def split: if_splits)+\<close>)
  qed (use assms i in \<open>auto simp: modify_search_api_settings_def split: if_splits\<close>)
qed





section \<open>The wizards: saving\<close>

lemma basic_save_result:
  assumes "map_of (organized_models E) provider = Some info"
  shows "\<exists>w' settings llm_config.
           modify_llm_settings_basic_save E provider chosen key w = (Returned (), w')
         \<and> settings_file w' = Some settings \<and> store_calls w' = store_calls w @ [settings]
         \<and> llm_model settings = Some (provider @ separator info @ chosen)
         \<and> get_llm_config E (config w') ''llm'' = (llm_config, config w')
         \<and> model llm_config = provider @ separator info @ chosen"
  using assms
  by (simp add: modify_llm_settings_basic_save_def config_defs split: prod.splits option.splits)

text \<open>
  Claim C3. When the basic wizard has collected a provider, a model and an API key and
  the user confirms the save, the wizard returns normally, \<^verbatim>\<open>store\<close> is called once,
  and both the \<^verbatim>\<open>llm_model\<close> of the settings stored and the \<^verbatim>\<open>model\<close> of the
  default LLM configuration in memory are the provider, followed by that provider's
  separator in \<^verbatim>\<open>organized_models\<close>, followed by the model, as collected. The provider
  collected always has an entry in \<^verbatim>\<open>organized_models\<close>.
\<close>

theorem basic_save_composes_model:
  assumes "modify_llm_settings_basic_inputs E s = (Returned (provider, chosen, key), s1)"
    and "save_settings_confirmation s1 = (Returned True, s2)"
  shows "\<exists>info w' settings llm_config.
           map_of (organized_models E) provider = Some info
         \<and> modify_llm_settings_basic E w s = (Returned (), w', s2)
         \<and> settings_file w' = Some settings \<and> store_calls w' = store_calls w @ [settings]
         \<and> llm_model settings = Some (provider @ separator info @ chosen)
         \<and> get_llm_config E (config w') ''llm'' = (llm_config, config w')
         \<and> model llm_config = provider @ separator info @ chosen"
proof -
  from basic_inputs_provider_known [OF assms(1)] obtain info where
    info: "map_of (organized_models E) provider = Some info" by blast
  from basic_save_result [OF info, where chosen = chosen and key = key and w = w] obtain w' settings llm_config where
    save: "modify_llm_settings_basic_save E provider chosen key w = (Returned (), w')"
    and props: "settings_file w' = Some settings" "store_calls w' = store_calls w @ [settings]"
      "llm_model settings = Some (provider @ separator info @ chosen)"
      "get_llm_config E (config w') ''llm'' = (llm_config, config w')"
      "model llm_config = provider @ separator info @ chosen"
    by blast
  from basic_inputs_reached [OF assms(1)] assms save
  have "modify_llm_settings_basic E w s = (Returned (), w', s2)"
    by (simp add: modify_llm_settings_basic_def)
  with info props show ?thesis by blast
qed

theorem basic_save_composes_model_witness:
  "\<exists>w' settings llm_config.
      modify_llm_settings_basic example_env example_world (basic_io 0) =
        (Returned (), w',
         \<lparr>prompts = [], confirms = [], shown = basic_shown @ [Confirm [''Yes, save'', ''No, discard'']]\<rparr>)
    \<and> settings_file w' = Some settings
    \<and> llm_model settings = Some ''cohere.command-r-plus''
    \<and> get_llm_config example_env (config w') ''llm'' = (llm_config, config w')
    \<and> model llm_config = ''cohere.command-r-plus''"
proof -
  have yes: "save_settings_confirmation \<lparr>prompts = [], confirms = [Answer 0], shown = basic_shown\<rparr> =
     (Returned True,
      \<lparr>prompts = [], confirms = [], shown = basic_shown @ [Confirm [''Yes, save'', ''No, discard'']]\<rparr>)"
    using save_run [of 0 basic_shown] by simp
  from basic_save_composes_model [OF basic_run [of 0] yes, of example_world]
  obtain info w' settings llm_config where
    info: "map_of (organized_models example_env) ''cohere'' = Some info"
    and run: "modify_llm_settings_basic example_env example_world (basic_io 0) =
        (Returned (), w',
         \<lparr>prompts = [], confirms = [], shown = basic_shown @ [Confirm [''Yes, save'', ''No, discard'']]\<rparr>)"
    and props: "settings_file w' = Some settings"
      "llm_model settings = Some (''cohere'' @ separator info @ ''command-r-plus'')"
      "get_llm_config example_env (config w') ''llm'' = (llm_config, config w')"
      "model llm_config = ''cohere'' @ separator info @ ''command-r-plus''"
    by blast
  from info have "separator info = ''.''" by (auto simp: example_env_def)
  with run props show ?thesis by auto
qed

text \<open>
  Claim C7. When the advanced wizard has collected its six inputs and the user confirms
  the save, the custom model, the base URL and the API key are in the default LLM
  configuration in memory and in the settings stored; the agent chosen is
  \<^verbatim>\<open>config.default_agent\<close> and \<^verbatim>\<open>settings.agent\<close>; the confirmation-mode choice is
  \<^verbatim>\<open>config.security.confirmation_mode\<close> and \<^verbatim>\<open>settings.confirmation_mode\<close>; the
  memory-condensation choice is \<^verbatim>\<open>settings.enable_default_condenser\<close>; and
  \<^verbatim>\<open>store\<close> is called once, with these settings.
\<close>

theorem advanced_save_writes_both:
  assumes "modify_llm_settings_advanced_inputs E s =
             (Returned (custom_model, url, key, chosen_agent, conf, cond), s1)"
    and "save_settings_confirmation s1 = (Returned True, s2)"
  shows "\<exists>w' settings llm_config.
           modify_llm_settings_advanced E w s = (Returned (), w', s2)
         \<and> get_llm_config E (config w') ''llm'' = (llm_config, config w')
         \<and> model llm_config = custom_model
         \<and> base_url llm_config = Some url
         \<and> api_key llm_config = Some (SecretStr key)
         \<and> default_agent (config w') = chosen_agent
         \<and> SecurityConfig.confirmation_mode (security (config w')) = conf
         \<and> settings_file w' = Some settings \<and> store_calls w' = store_calls w @ [settings]
         \<and> llm_model settings = Some custom_model
         \<and> llm_base_url settings = Some url
         \<and> llm_api_key settings = Some (SecretStr key)
         \<and> agent settings = Some chosen_agent
         \<and> Settings.confirmation_mode settings = Some conf
         \<and> Settings.enable_default_condenser settings = cond"
  using assms
  by (simp add: modify_llm_settings_advanced_def modify_llm_settings_advanced_save_def config_defs
        split: prod.splits option.splits)

theorem advanced_save_writes_both_witness:
  "\<exists>w' settings llm_config.
      modify_llm_settings_advanced example_env example_world (advanced_io 0) =
        (Returned (), w',
         \<lparr>prompts = [], confirms = [], shown = advanced_shown @ [Confirm [''Yes, save'', ''No, discard'']]\<rparr>)
    \<and> get_llm_config example_env (config w') ''llm'' = (llm_config, config w')
    \<and> model llm_config = ''my-model''
    \<and> base_url llm_config = Some ''http://localhost:4000''
    \<and> api_key llm_config = Some (SecretStr ''sk-2'')
    \<and> default_agent (config w') = ''BrowsingAgent''
    \<and> SecurityConfig.confirmation_mode (security (config w')) = True
    \<and> settings_file w' = Some settings
    \<and> llm_model settings = Some ''my-model''
    \<and> agent settings = Some ''BrowsingAgent''
    \<and> Settings.confirmation_mode settings = Some True
    \<and> Settings.enable_default_condenser settings = False"
proof -
  have yes: "save_settings_confirmation \<lparr>prompts = [], confirms = [Answer 0], shown = advanced_shown\<rparr> =
     (Returned True,
      \<lparr>prompts = [], confirms = [], shown = advanced_shown @ [Confirm [''Yes, save'', ''No, discard'']]\<rparr>)"
    using save_run [of 0 advanced_shown] by simp
  from advanced_save_writes_both [OF advanced_run [of 0] yes, of example_world]
  show ?thesis by blast
qed

text \<open>
  Claim C10. In the search wizard, choosing \<^verbatim>\<open>Remove API Key\<close> (index 1) and then
  \<^verbatim>\<open>Yes, save\<close> (index 0) sets \<^verbatim>\<open>config.search_api_key\<close> and the stored settings'
  \<^verbatim>\<open>search_api_key\<close> to \<^verbatim>\<open>None\<close>, not to a secret holding the empty string, and
  calls \<^verbatim>\<open>store\<close> exactly once.
\<close>

theorem remove_search_key:
  assumes "confirms s = Answer 1 # Answer 0 # rest"
  shows "\<exists>w' s' settings.
           modify_search_api_settings E w s = (Returned (), w', s')
         \<and> OpenHandsConfig.search_api_key (config w') = None
         \<and> settings_file w' = Some settings
         \<and> Settings.search_api_key settings = None
         \<and> store_calls w' = store_calls w @ [settings]"
  using assms
  by (simp add: modify_search_api_settings_def modify_search_api_settings_inputs_def
        modify_search_api_settings_save_def save_settings_confirmation_def
        bnd_def ret_def cli_confirm_def config_defs)

theorem remove_search_key_witness:
  "confirms remove_io = [Answer 1, Answer 0]
   \<and> OpenHandsConfig.search_api_key (config example_world) = Some (SecretStr ''tvly-old'')
   \<and> (\<exists>w' s' settings.
           modify_search_api_settings example_env example_world remove_io = (Returned (), w', s')
         \<and> OpenHandsConfig.search_api_key (config w') = None
         \<and> settings_file w' = Some settings
         \<and> Settings.search_api_key settings = None
         \<and> store_calls w' = [settings])"
proof -
  have c: "confirms remove_io = Answer 1 # Answer 0 # []" by (simp add: remove_io_def)
  from remove_search_key [OF c, of example_env example_world] c show ?thesis
    by (simp add: example_world_def example_config_def)
qed

section \<open>The model list of a verified provider\<close>




end
